theory Spec2Isabelle
  imports Main "HOL-Library.Word"
begin

section \<open>The shader unit of DX11Rendering2DDemo\<close>

text \<open>
  A shallow embedding of \<^verbatim>\<open>src/CShader.cpp\<close> (class \<^verbatim>\<open>CShader\<close> and
  \<^verbatim>\<open>CDXShaderException\<close>), of the constructor of \<^verbatim>\<open>CHResultException\<close> in
  \<^verbatim>\<open>src/HResultException.cpp\<close> and of the class declaration in \<^verbatim>\<open>CShader.h\<close>.
  Member functions take the object as an explicit state and return the updated one; an
  exception is the left injection of a sum, returned together with the state the object
  is left in when the exception propagates.
\<close>

subsection \<open>Platform types\<close>

type_synonym HRESULT = "32 word"
type_synonym UINT = "32 word"

text \<open>COM objects are identified by their address; a null pointer is \<open>None\<close>.\<close>

type_synonym ID3DBlob = nat
type_synonym ID3DInclude = nat
type_synonym IErrorInfo = nat

definition S_OK :: HRESULT where
  "S_OK = 0"

definition S_FALSE :: HRESULT where
  "S_FALSE = 1"

definition E_FAIL :: HRESULT where
  "E_FAIL = 0x80004005"

text \<open>The macros \<^verbatim>\<open>FAILED\<close> and \<^verbatim>\<open>SUCCEEDED\<close> of the platform SDK: the sign of the
  32-bit status.\<close>

definition FAILED :: "HRESULT \<Rightarrow> bool" where
  "FAILED hr = (sint hr < 0)"

definition SUCCEEDED :: "HRESULT \<Rightarrow> bool" where
  "SUCCEEDED hr = (0 \<le> sint hr)"

text \<open>The native macro pair handed to the compiler. A \<^verbatim>\<open>const char*\<close> is \<open>None\<close> when
  null and otherwise \<open>Some\<close> of the text it pointed to when the pair was written.\<close>

datatype D3D_SHADER_MACRO = D3D_SHADER_MACRO (Name: "string option") (Definition: "string option")

text \<open>The include argument of the compiler: \<^verbatim>\<open>D3D_COMPILE_STANDARD_FILE_INCLUDE\<close> or a
  handler of the caller.\<close>

datatype include_arg = D3D_COMPILE_STANDARD_FILE_INCLUDE | IncludeHandler ID3DInclude

text \<open>The arguments of one call of \<^verbatim>\<open>D3DCompile\<close>, without the two out parameters.\<close>

record D3DCompile_args =
  pSrcData :: string
  SrcDataSize :: nat
  pSourceName :: string
  pDefines :: "D3D_SHADER_MACRO list option"
  pInclude :: include_arg
  pEntrypoint :: string
  pTarget :: string
  Flags1 :: UINT
  Flags2 :: UINT

text \<open>What one call of \<^verbatim>\<open>D3DCompile\<close> delivers: its status, and the two out parameters
  as they stand after the call, both null before it. \<open>ppErrorMsgs\<close> is the
  zero-terminated text at the buffer of the error blob.\<close>

record D3DCompile_out =
  hresult :: HRESULT
  ppCode :: "ID3DBlob option"
  ppErrorMsgs :: "string option"

subsection \<open>The data of the classes\<close>

datatype ShaderMacro = ShaderMacro (m_name: string) (m_definition: string)

text \<open>The platform is a parameter of the model: the compiler (told how many calls came
  before, so that it may answer each call differently), the result of
  \<^verbatim>\<open>::GetErrorInfo(0, &m_p_error)\<close>, and what the standard library leaves in a
  \<^verbatim>\<open>ShaderMacro\<close> that has been moved from (given the old value of the target and the
  value of the source; the C++ standard leaves it unspecified).\<close>

record platform =
  D3DCompile :: "nat \<Rightarrow> D3DCompile_args \<Rightarrow> D3DCompile_out"
  GetErrorInfo :: "HRESULT \<times> IErrorInfo option"
  moved_from :: "ShaderMacro \<Rightarrow> ShaderMacro \<Rightarrow> ShaderMacro"

record CShader =
  m_code :: string
  m_entry_point :: string
  m_name :: string
  m_target :: string
  m_macros :: "ShaderMacro list"
  m_shader_macros :: "D3D_SHADER_MACRO list"
  m_p_include :: "ID3DInclude option"
  m_flags1 :: UINT
  m_flags2 :: UINT
  m_is_macro_changed :: bool
  m_is_config_changed :: bool
  m_p_cached_byte_code :: "ID3DBlob option"

text \<open>The default member initialisers of \<^verbatim>\<open>CShader\<close>; \<^verbatim>\<open>m_shader_macros{0}\<close> is a
  vector of no elements.\<close>

definition CShader_default :: CShader where
  "CShader_default =
     \<lparr>m_code = [], m_entry_point = [], m_name = [], m_target = [], m_macros = [],
      m_shader_macros = [], m_p_include = None, m_flags1 = 0, m_flags2 = 0,
      m_is_macro_changed = True, m_is_config_changed = True, m_p_cached_byte_code = None\<rparr>"

record CHResultException =
  runtime_error_what :: string
  m_hr :: HRESULT
  m_p_error :: "IErrorInfo option"

record CDXShaderException = CHResultException +
  m_error :: string

subsection \<open>The exceptions\<close>

text \<open>\<^verbatim>\<open>CHResultException::CHResultException(HRESULT hr, const char* p_message)\<close>:
  the base class takes the message, and \<open>m_hr\<close> is assigned from \<^verbatim>\<open>::GetErrorInfo\<close>.\<close>

definition CHResultException_ctor :: "platform \<Rightarrow> HRESULT \<Rightarrow> string \<Rightarrow> CHResultException" where
  "CHResultException_ctor pf hr p_message =
     \<lparr>runtime_error_what = p_message, m_hr = fst (GetErrorInfo pf),
      m_p_error = snd (GetErrorInfo pf)\<rparr>"

definition GetHResult :: "'a CHResultException_scheme \<Rightarrow> HRESULT" where
  "GetHResult ex = m_hr ex"

definition HasError :: "'a CHResultException_scheme \<Rightarrow> bool" where
  "HasError ex = SUCCEEDED (m_hr ex)"

definition CDXShaderException_ctor ::
  "platform \<Rightarrow> HRESULT \<Rightarrow> string \<Rightarrow> string option \<Rightarrow> CDXShaderException" where
  "CDXShaderException_ctor pf hr p_error p_shader_error =
     CHResultException.extend (CHResultException_ctor pf hr p_error)
       (CDXShaderException.fields
          (case p_shader_error of None \<Rightarrow> p_error | Some txt \<Rightarrow> p_error @ txt))"

definition what :: "CDXShaderException \<Rightarrow> string" where
  "what ex = m_error ex"

text \<open>Modelled from the spec: the template \<^verbatim>\<open>ThrowIfFailed<Exception>(hr, args...)\<close> of
  \<^verbatim>\<open>HResultException.h\<close>, which is not among the sources. It throws
  \<^verbatim>\<open>Exception{hr, args...}\<close> when the status is a failure ("On failure, raise
  ShaderCompilationError") and returns otherwise; its arguments are read after the
  compiler call has returned.\<close>

definition ThrowIfFailed :: "HRESULT \<Rightarrow> 'e \<Rightarrow> 'e + unit" where
  "ThrowIfFailed hr ex = (if FAILED hr then Inl ex else Inr ())"

subsection \<open>The setters and getters\<close>

definition GetCode :: "CShader \<Rightarrow> string" where
  "GetCode s = m_code s"

definition SetCode :: "string \<Rightarrow> CShader \<Rightarrow> CShader" where
  "SetCode code s = s\<lparr>m_is_config_changed := True, m_code := code\<rparr>"

definition GetEntryPoint :: "CShader \<Rightarrow> string" where
  "GetEntryPoint s = m_entry_point s"

definition SetEntryPoint :: "string \<Rightarrow> CShader \<Rightarrow> CShader" where
  "SetEntryPoint entry_point s = s\<lparr>m_is_config_changed := True, m_entry_point := entry_point\<rparr>"

definition GetName :: "CShader \<Rightarrow> string" where
  "GetName s = m_name s"

definition SetName :: "string \<Rightarrow> CShader \<Rightarrow> CShader" where
  "SetName name s = s\<lparr>m_is_config_changed := True, m_name := name\<rparr>"

definition GetTarget :: "CShader \<Rightarrow> string" where
  "GetTarget s = m_target s"

definition SetTarget :: "string \<Rightarrow> CShader \<Rightarrow> CShader" where
  "SetTarget target s = s\<lparr>m_is_config_changed := True, m_target := target\<rparr>"

definition AddMacro :: "ShaderMacro \<Rightarrow> CShader \<Rightarrow> CShader" where
  "AddMacro macro s = s\<lparr>m_is_config_changed := True, m_macros := m_macros s @ [macro]\<rparr>"

text \<open>\<^verbatim>\<open>std::find_if\<close>: the index of the first element that satisfies \<open>p\<close>, the length
  of the list when there is none.\<close>

definition find_if :: "('a \<Rightarrow> bool) \<Rightarrow> 'a list \<Rightarrow> nat" where
  "find_if p xs = length (takeWhile (\<lambda>x. \<not> p x) xs)"

text \<open>The loop of \<^verbatim>\<open>std::remove_if\<close>: \<^verbatim>\<open>for (i = first; ++i != last;) if (!p(*i))
  *first++ = std::move(*i);\<close>. The element moved from keeps its place, holding what the
  move left there.\<close>

function remove_if_loop ::
  "('a \<Rightarrow> 'a \<Rightarrow> 'a) \<Rightarrow> ('a \<Rightarrow> bool) \<Rightarrow> 'a list \<Rightarrow> nat \<Rightarrow> nat \<Rightarrow> 'a list \<times> nat" where
  "remove_if_loop mv p xs first i =
     (if i < length xs then
        (if p (xs ! i) then remove_if_loop mv p xs first (Suc i)
         else remove_if_loop mv p (xs[first := xs ! i, i := mv (xs ! first) (xs ! i)])
                (Suc first) (Suc i))
      else (xs, first))"
  by pat_completeness auto
termination
  by (relation "measure (\<lambda>(mv, p, xs, first, i). length xs - i)") auto

declare remove_if_loop.simps [simp del]

text \<open>\<^verbatim>\<open>std::remove_if\<close>: the sequence after the call, and the returned iterator as an
  index.\<close>

definition remove_if :: "('a \<Rightarrow> 'a \<Rightarrow> 'a) \<Rightarrow> ('a \<Rightarrow> bool) \<Rightarrow> 'a list \<Rightarrow> 'a list \<times> nat" where
  "remove_if mv p xs =
     (let first = find_if p xs
      in if first < length xs then remove_if_loop mv p xs first (Suc first) else (xs, first))"

text \<open>\<^verbatim>\<open>std::ignore = std::remove_if(...)\<close>: the returned iterator is dropped.\<close>

definition DeleteMacro :: "(ShaderMacro \<Rightarrow> ShaderMacro \<Rightarrow> ShaderMacro) \<Rightarrow> string \<Rightarrow> CShader \<Rightarrow> CShader" where
  "DeleteMacro mv name s =
     s\<lparr>m_is_config_changed := True,
       m_macros := fst (remove_if mv (\<lambda>x. ShaderMacro.m_name x = name) (m_macros s))\<rparr>"

definition GetMacros :: "CShader \<Rightarrow> ShaderMacro list" where
  "GetMacros s = m_macros s"

definition GetFlags1 :: "CShader \<Rightarrow> UINT" where
  "GetFlags1 s = m_flags1 s"

definition SetFlags1 :: "UINT \<Rightarrow> CShader \<Rightarrow> CShader" where
  "SetFlags1 flags1 s = s\<lparr>m_is_config_changed := True, m_flags1 := flags1\<rparr>"

definition GetFlags2 :: "CShader \<Rightarrow> UINT" where
  "GetFlags2 s = m_flags2 s"

definition SetFlags2 :: "UINT \<Rightarrow> CShader \<Rightarrow> CShader" where
  "SetFlags2 flags2 s = s\<lparr>m_is_config_changed := True, m_flags2 := flags2\<rparr>"

text \<open>\<^verbatim>\<open>GetInclude\<close> is not \<^verbatim>\<open>const\<close>: it returns the pointer and the object it leaves.\<close>

definition GetInclude :: "CShader \<Rightarrow> ID3DInclude option \<times> CShader" where
  "GetInclude s = (m_p_include s, s\<lparr>m_is_config_changed := True\<rparr>)"

definition SetInclude :: "ID3DInclude option \<Rightarrow> CShader \<Rightarrow> CShader" where
  "SetInclude p_indclude s = s\<lparr>m_is_config_changed := True, m_p_include := p_indclude\<rparr>"

subsection \<open>Compile\<close>

text \<open>\<^verbatim>\<open>std::vector::resize\<close> with value-initialised new elements.\<close>

definition resize :: "nat \<Rightarrow> D3D_SHADER_MACRO list \<Rightarrow> D3D_SHADER_MACRO list" where
  "resize n v = take n v @ replicate (n - length v) (D3D_SHADER_MACRO None None)"

text \<open>\<^verbatim>\<open>std::transform\<close> onto the front of a destination that is long enough.\<close>

definition transform :: "('a \<Rightarrow> 'b) \<Rightarrow> 'a list \<Rightarrow> 'b list \<Rightarrow> 'b list" where
  "transform f src dst = map f src @ drop (length src) dst"

definition set_back :: "'b \<Rightarrow> 'b list \<Rightarrow> 'b list" where
  "set_back x v = v[length v - 1 := x]"

text \<open>The body of the first \<^verbatim>\<open>if\<close> of \<^verbatim>\<open>Compile\<close>.\<close>

definition rebuild_shader_macros :: "CShader \<Rightarrow> CShader" where
  "rebuild_shader_macros s =
     s\<lparr>m_shader_macros :=
         set_back (D3D_SHADER_MACRO None None)
           (transform (\<lambda>current. D3D_SHADER_MACRO (Some (ShaderMacro.m_name current))
                                  (Some (m_definition current)))
              (m_macros s)
              (resize (length (m_macros s) + 1) (m_shader_macros s)))\<rparr>"

definition D3DCompile_args_of :: "CShader \<Rightarrow> D3DCompile_args" where
  "D3DCompile_args_of s =
     \<lparr>pSrcData = m_code s,
      SrcDataSize = length (m_code s),
      pSourceName = m_name s,
      pDefines = (if m_macros s = [] then None else Some (m_shader_macros s)),
      pInclude = (case m_p_include s of None \<Rightarrow> D3D_COMPILE_STANDARD_FILE_INCLUDE
                  | Some p \<Rightarrow> IncludeHandler p),
      pEntrypoint = m_entry_point s,
      pTarget = m_target s,
      Flags1 = m_flags1 s,
      Flags2 = m_flags2 s\<rparr>"

text \<open>The first statements of \<^verbatim>\<open>Compile\<close>: the array is rebuilt when the flag is set and
  there are macros, and the flag is cleared in either case.\<close>

definition refresh_shader_macros :: "CShader \<Rightarrow> CShader" where
  "refresh_shader_macros s =
     (if m_is_macro_changed s \<and> m_macros s \<noteq> [] then rebuild_shader_macros s else s)
       \<lparr>m_is_macro_changed := False\<rparr>"

text \<open>\<^verbatim>\<open>CShader::Compile\<close>. Beside the object it threads the log of the compiler calls
  made so far. \<^verbatim>\<open>&m_p_cached_byte_code\<close> releases what the smart pointer holds, so
  after the call the pointer is what the compiler stored. When \<^verbatim>\<open>ThrowIfFailed\<close> throws,
  the assignment after it is not reached.\<close>

definition Compile ::
  "platform \<Rightarrow> CShader \<times> D3DCompile_args list \<Rightarrow>
     (CDXShaderException + ID3DBlob option) \<times> CShader \<times> D3DCompile_args list" where
  "Compile pf sc =
     (let s = fst sc; calls = snd sc;
          s2 = refresh_shader_macros s
      in if m_is_config_changed s2 then
           (let args = D3DCompile_args_of s2;
                out = D3DCompile pf (length calls) args;
                s3 = s2\<lparr>m_p_cached_byte_code := ppCode out\<rparr>
            in case ThrowIfFailed (hresult out)
                      (CDXShaderException_ctor pf (hresult out) ''Compile DX shader failed.''
                         (ppErrorMsgs out)) of
                 Inl ex \<Rightarrow> (Inl ex, s3, calls @ [args])
               | Inr u \<Rightarrow>
                   (let s4 = s3\<lparr>m_is_config_changed := False\<rparr>
                    in (Inr (m_p_cached_byte_code s4), s4, calls @ [args])))
         else (Inr (m_p_cached_byte_code s2), s2, calls))"

subsection \<open>Sequences of calls\<close>

text \<open>The mutators of the class as data, so that a sequence of calls is a list.\<close>

datatype mutator =
    CallSetCode string
  | CallSetEntryPoint string
  | CallSetName string
  | CallSetTarget string
  | CallAddMacro ShaderMacro
  | CallDeleteMacro string
  | CallSetFlags1 UINT
  | CallSetFlags2 UINT
  | CallSetInclude "ID3DInclude option"

fun apply_mutator :: "platform \<Rightarrow> mutator \<Rightarrow> CShader \<Rightarrow> CShader" where
  "apply_mutator pf (CallSetCode code) s = SetCode code s"
| "apply_mutator pf (CallSetEntryPoint entry_point) s = SetEntryPoint entry_point s"
| "apply_mutator pf (CallSetName name) s = SetName name s"
| "apply_mutator pf (CallSetTarget target) s = SetTarget target s"
| "apply_mutator pf (CallAddMacro macro) s = AddMacro macro s"
| "apply_mutator pf (CallDeleteMacro name) s = DeleteMacro (moved_from pf) name s"
| "apply_mutator pf (CallSetFlags1 flags1) s = SetFlags1 flags1 s"
| "apply_mutator pf (CallSetFlags2 flags2) s = SetFlags2 flags2 s"
| "apply_mutator pf (CallSetInclude p) s = SetInclude p s"

definition apply_mutators :: "platform \<Rightarrow> mutator list \<Rightarrow> CShader \<Rightarrow> CShader" where
  "apply_mutators pf ms s = fold (apply_mutator pf) ms s"

text \<open>Every call that changes the object: a mutator, \<^verbatim>\<open>GetInclude\<close>, or \<^verbatim>\<open>Compile\<close>.\<close>

datatype call = Mutator mutator | CallGetInclude | CallCompile

text \<open>A unit in use: the object, the log of compiler calls, and a history flag that is
  not part of the program: whether a call of \<^verbatim>\<open>Compile\<close> has returned normally since the
  most recent call that set \<open>m_is_config_changed\<close>. A caller catches the exception of a
  failed \<^verbatim>\<open>Compile\<close> and goes on with the object as it was left.\<close>

record session =
  shader :: CShader
  compiler_calls :: "D3DCompile_args list"
  compiled_since_change :: bool

definition session_start :: session where
  "session_start = \<lparr>shader = CShader_default, compiler_calls = [], compiled_since_change = False\<rparr>"

fun step :: "platform \<Rightarrow> call \<Rightarrow> session \<Rightarrow> session" where
  "step pf (Mutator m) w =
     w\<lparr>shader := apply_mutator pf m (shader w), compiled_since_change := False\<rparr>"
| "step pf CallGetInclude w =
     w\<lparr>shader := snd (GetInclude (shader w)), compiled_since_change := False\<rparr>"
| "step pf CallCompile w =
     (let r = Compile pf (shader w, compiler_calls w)
      in w\<lparr>shader := fst (snd r), compiler_calls := snd (snd r),
            compiled_since_change :=
              (case fst r of Inl ex \<Rightarrow> compiled_since_change w | Inr b \<Rightarrow> True)\<rparr>)"

definition run :: "platform \<Rightarrow> call list \<Rightarrow> session \<Rightarrow> session" where
  "run pf cs w = fold (step pf) cs w"

text \<open>What every reachable session satisfies: the history flag is the negation of
  \<open>m_is_config_changed\<close>, and a unit whose flag is clear holds a blob.\<close>

definition settled :: "session \<Rightarrow> bool" where
  "settled w =
     (compiled_since_change w = (\<not> m_is_config_changed (shader w)) \<and>
      (m_is_config_changed (shader w) \<or> m_p_cached_byte_code (shader w) \<noteq> None))"

subsection \<open>Stub platforms\<close>

text \<open>A compiler that always succeeds with the blob \<open>b\<close>, and one that always fails with
  the status \<open>hr\<close> and the diagnostic text \<open>txt\<close>. No COM error object is set, so
  \<^verbatim>\<open>::GetErrorInfo\<close> answers \<^verbatim>\<open>S_FALSE\<close>; a string that was moved from is empty.\<close>

definition stub_succeeding :: "ID3DBlob \<Rightarrow> platform" where
  "stub_succeeding b =
     \<lparr>D3DCompile = (\<lambda>n args. \<lparr>hresult = S_OK, ppCode = Some b, ppErrorMsgs = None\<rparr>),
      GetErrorInfo = (S_FALSE, None),
      moved_from = (\<lambda>target source. ShaderMacro [] [])\<rparr>"

definition stub_failing :: "HRESULT \<Rightarrow> string \<Rightarrow> platform" where
  "stub_failing hr txt =
     \<lparr>D3DCompile = (\<lambda>n args. \<lparr>hresult = hr, ppCode = None, ppErrorMsgs = Some txt\<rparr>),
      GetErrorInfo = (S_FALSE, None),
      moved_from = (\<lambda>target source. ShaderMacro [] [])\<rparr>"

section \<open>Properties of the standard algorithms\<close>

lemma length_remove_if_loop:
  "length (fst (remove_if_loop mv p xs first i)) = length xs"
proof (induction mv p xs first i rule: remove_if_loop.induct)
  case (1 mv p xs first i)
  show ?case
  proof (cases "i < length xs")
    case False
    then show ?thesis by (subst remove_if_loop.simps) simp
  next
    case True
    show ?thesis
    proof (cases "p (xs ! i)")
      case True
      with \<open>i < length xs\<close> "1.IH"(1) show ?thesis
        by (subst remove_if_loop.simps) simp
    next
      case False
      with \<open>i < length xs\<close> "1.IH"(2) show ?thesis
        by (subst remove_if_loop.simps) simp
    qed
  qed
qed

lemma length_remove_if: "length (fst (remove_if mv p xs)) = length xs"
  by (simp add: remove_if_def Let_def length_remove_if_loop)

text \<open>The loop keeps what lies before \<open>first\<close> and appends the elements from \<open>i\<close> on that
  do not satisfy \<open>p\<close>, in their order.\<close>

lemma snd_remove_if_loop:
  "first < i \<Longrightarrow> i \<le> length xs \<Longrightarrow>
   snd (remove_if_loop mv p xs first i) = first + length (filter (\<lambda>x. \<not> p x) (drop i xs))"
proof (induction mv p xs first i rule: remove_if_loop.induct)
  case (1 mv p xs first i)
  show ?case
  proof (cases "i < length xs")
    case False
    with "1.prems" show ?thesis by (subst remove_if_loop.simps) simp
  next
    case lt: True
    have dr: "drop i xs = xs ! i # drop (Suc i) xs"
      using lt by (simp add: Cons_nth_drop_Suc)
    show ?thesis
    proof (cases "p (xs ! i)")
      case True
      have "first < Suc i" "Suc i \<le> length xs" using "1.prems" lt by simp_all
      from "1.IH"(1)[OF lt True this] True lt dr show ?thesis
        by (subst remove_if_loop.simps) simp
    next
      case False
      let ?ys = "xs[first := xs ! i, i := mv (xs ! first) (xs ! i)]"
      have a: "Suc first < Suc i" "Suc i \<le> length ?ys" using "1.prems" lt by simp_all
      have d: "drop (Suc i) ?ys = drop (Suc i) xs" using "1.prems" by simp
      from "1.IH"(2)[OF lt False a] False lt dr d show ?thesis
        by (subst remove_if_loop.simps) simp
    qed
  qed
qed

lemma take_remove_if_loop:
  "first < i \<Longrightarrow> i \<le> length xs \<Longrightarrow>
   take (first + length (filter (\<lambda>x. \<not> p x) (drop i xs))) (fst (remove_if_loop mv p xs first i)) =
     take first xs @ filter (\<lambda>x. \<not> p x) (drop i xs)"
proof (induction mv p xs first i rule: remove_if_loop.induct)
  case (1 mv p xs first i)
  show ?case
  proof (cases "i < length xs")
    case False
    with "1.prems" show ?thesis by (subst remove_if_loop.simps) simp
  next
    case lt: True
    have dr: "drop i xs = xs ! i # drop (Suc i) xs"
      using lt by (simp add: Cons_nth_drop_Suc)
    show ?thesis
    proof (cases "p (xs ! i)")
      case True
      have "first < Suc i" "Suc i \<le> length xs" using "1.prems" lt by simp_all
      from "1.IH"(1)[OF lt True this] True lt dr show ?thesis
        by (subst remove_if_loop.simps) simp
    next
      case False
      let ?ys = "xs[first := xs ! i, i := mv (xs ! first) (xs ! i)]"
      have a: "Suc first < Suc i" "Suc i \<le> length ?ys" using "1.prems" lt by simp_all
      have d: "drop (Suc i) ?ys = drop (Suc i) xs" using "1.prems" by simp
      have t: "take (Suc first) ?ys = take first xs @ [xs ! i]"
        using "1.prems" lt by (simp add: take_Suc_conv_app_nth)
      from "1.IH"(2)[OF lt False a] False lt dr d t show ?thesis
        by (subst remove_if_loop.simps) simp
    qed
  qed
qed

lemma filter_takeWhile_same: "filter P (takeWhile P xs) = takeWhile P xs"
  by (induction xs) simp_all

lemma filter_split_at_find_if:
  assumes "find_if p xs < length xs"
  shows "filter (\<lambda>x. \<not> p x) xs =
           take (find_if p xs) xs @ filter (\<lambda>x. \<not> p x) (drop (Suc (find_if p xs)) xs)"
proof -
  let ?k = "find_if p xs"
  have k: "?k = length (takeWhile (\<lambda>x. \<not> p x) xs)" by (simp add: find_if_def)
  have tk: "take ?k xs = takeWhile (\<lambda>x. \<not> p x) xs"
    unfolding k by (rule takeWhile_eq_take [symmetric])
  have hit: "p (xs ! ?k)"
    using assms nth_length_takeWhile [of "\<lambda>x. \<not> p x" xs] unfolding k by simp
  have keep: "filter (\<lambda>x. \<not> p x) (take ?k xs) = take ?k xs"
    unfolding tk by (rule filter_takeWhile_same)
  have "xs = take ?k xs @ xs ! ?k # drop (Suc ?k) xs"
    using assms by (simp add: id_take_nth_drop [symmetric])
  then have "filter (\<lambda>x. \<not> p x) xs =
      filter (\<lambda>x. \<not> p x) (take ?k xs @ xs ! ?k # drop (Suc ?k) xs)" by simp
  also have "\<dots> = take ?k xs @ filter (\<lambda>x. \<not> p x) (drop (Suc ?k) xs)"
    using hit keep by simp
  finally show ?thesis .
qed

lemma filter_no_hit:
  assumes "\<not> find_if p xs < length xs"
  shows "filter (\<lambda>x. \<not> p x) xs = xs"
proof -
  have "length (takeWhile (\<lambda>x. \<not> p x) xs) = length xs"
    using assms length_takeWhile_le [of "\<lambda>x. \<not> p x" xs] by (simp add: find_if_def)
  then have "takeWhile (\<lambda>x. \<not> p x) xs = xs"
    by (metis takeWhile_eq_take take_all order_refl)
  then show ?thesis
    using filter_takeWhile_same [of "\<lambda>x. \<not> p x" xs] by simp
qed

text \<open>\<^verbatim>\<open>std::remove_if\<close> gathers the elements that stay at the front, in their order; the
  sequence keeps its length.\<close>

lemma remove_if_kept:
  "take (length (filter (\<lambda>x. \<not> p x) xs)) (fst (remove_if mv p xs)) = filter (\<lambda>x. \<not> p x) xs"
proof (cases "find_if p xs < length xs")
  case True
  let ?k = "find_if p xs"
  have len: "length (filter (\<lambda>x. \<not> p x) xs) =
      ?k + length (filter (\<lambda>x. \<not> p x) (drop (Suc ?k) xs))"
    using True by (subst filter_split_at_find_if [OF True]) simp
  have "take (?k + length (filter (\<lambda>x. \<not> p x) (drop (Suc ?k) xs)))
          (fst (remove_if_loop mv p xs ?k (Suc ?k))) =
        take ?k xs @ filter (\<lambda>x. \<not> p x) (drop (Suc ?k) xs)"
    using True by (intro take_remove_if_loop) simp_all
  then have "take (length (filter (\<lambda>x. \<not> p x) xs)) (fst (remove_if_loop mv p xs ?k (Suc ?k))) =
      filter (\<lambda>x. \<not> p x) xs"
    by (simp only: len [symmetric] filter_split_at_find_if [OF True, symmetric])
  then show ?thesis
    using True by (simp add: remove_if_def Let_def)
next
  case False
  then show ?thesis
    using filter_no_hit [OF False]
    by (simp add: remove_if_def Let_def)
qed

lemma remove_if_returns:
  "snd (remove_if mv p xs) = length (filter (\<lambda>x. \<not> p x) xs)"
proof (cases "find_if p xs < length xs")
  case True
  have "snd (remove_if mv p xs) =
      find_if p xs + length (filter (\<lambda>x. \<not> p x) (drop (Suc (find_if p xs)) xs))"
    using True by (simp add: remove_if_def Let_def snd_remove_if_loop)
  also have "\<dots> = length (take (find_if p xs) xs @
      filter (\<lambda>x. \<not> p x) (drop (Suc (find_if p xs)) xs))"
    using True by simp
  also have "\<dots> = length (filter (\<lambda>x. \<not> p x) xs)"
    by (simp only: filter_split_at_find_if [OF True, symmetric])
  finally show ?thesis .
next
  case False
  have "find_if p xs \<le> length xs"
    by (simp add: find_if_def length_takeWhile_le)
  with False show ?thesis
    using filter_no_hit [OF False] by (simp add: remove_if_def Let_def)
qed

lemma length_resize: "length (resize n v) = n"
  by (simp add: resize_def)

lemma set_back_transform:
  assumes "length dst = Suc (length src)"
  shows "set_back z (transform f src dst) = map f src @ [z]"
proof -
  obtain y where y: "drop (length src) dst = [y]"
    using assms
    by (cases "drop (length src) dst")
      (auto simp: length_Suc_conv dest: arg_cong [where f = length])
  have "set_back z (map f src @ [y]) = (map f src @ [y])[length (map f src) := z]"
    by (simp add: set_back_def)
  also have "\<dots> = map f src @ [z]"
    by (simp only: list_update_length)
  finally show ?thesis
    by (simp add: transform_def y)
qed

section \<open>Properties of Compile\<close>

lemma rebuild_shader_macros_array:
  "m_shader_macros (rebuild_shader_macros s) =
     map (\<lambda>current. D3D_SHADER_MACRO (Some (ShaderMacro.m_name current))
            (Some (m_definition current))) (m_macros s) @ [D3D_SHADER_MACRO None None]"
  by (simp add: rebuild_shader_macros_def set_back_transform length_resize)

lemma refresh_shader_macros_fields:
  "\<not> m_is_macro_changed (refresh_shader_macros s)"
  "m_is_config_changed (refresh_shader_macros s) = m_is_config_changed s"
  "m_p_cached_byte_code (refresh_shader_macros s) = m_p_cached_byte_code s"
  "m_macros (refresh_shader_macros s) = m_macros s"
  by (simp_all add: refresh_shader_macros_def rebuild_shader_macros_def)

lemma refresh_shader_macros_idle:
  "\<not> m_is_macro_changed s \<Longrightarrow> refresh_shader_macros s = s"
  by (simp add: refresh_shader_macros_def)

text \<open>The three ways through \<^verbatim>\<open>Compile\<close>.\<close>

lemma Compile_clean:
  "\<not> m_is_config_changed s \<Longrightarrow>
   Compile pf (s, calls) =
     (Inr (m_p_cached_byte_code s), refresh_shader_macros s, calls)"
  by (simp add: Compile_def Let_def refresh_shader_macros_fields)

lemma Compile_failed:
  "m_is_config_changed s \<Longrightarrow>
   FAILED (hresult (D3DCompile pf (length calls) (D3DCompile_args_of (refresh_shader_macros s)))) \<Longrightarrow>
   Compile pf (s, calls) =
     (Inl (CDXShaderException_ctor pf
             (hresult (D3DCompile pf (length calls) (D3DCompile_args_of (refresh_shader_macros s))))
             ''Compile DX shader failed.''
             (ppErrorMsgs (D3DCompile pf (length calls) (D3DCompile_args_of (refresh_shader_macros s))))),
      (refresh_shader_macros s)
        \<lparr>m_p_cached_byte_code :=
           ppCode (D3DCompile pf (length calls) (D3DCompile_args_of (refresh_shader_macros s)))\<rparr>,
      calls @ [D3DCompile_args_of (refresh_shader_macros s)])"
  by (simp add: Compile_def Let_def ThrowIfFailed_def refresh_shader_macros_fields)

lemma Compile_succeeded:
  "m_is_config_changed s \<Longrightarrow>
   \<not> FAILED (hresult (D3DCompile pf (length calls) (D3DCompile_args_of (refresh_shader_macros s)))) \<Longrightarrow>
   Compile pf (s, calls) =
     (Inr (ppCode (D3DCompile pf (length calls) (D3DCompile_args_of (refresh_shader_macros s)))),
      (refresh_shader_macros s)
        \<lparr>m_p_cached_byte_code :=
           ppCode (D3DCompile pf (length calls) (D3DCompile_args_of (refresh_shader_macros s))),
         m_is_config_changed := False\<rparr>,
      calls @ [D3DCompile_args_of (refresh_shader_macros s)])"
  by (simp add: Compile_def Let_def ThrowIfFailed_def refresh_shader_macros_fields)

lemma Compile_shader_macros:
  "m_shader_macros (fst (snd (Compile pf (s, calls)))) = m_shader_macros (refresh_shader_macros s)"
  by (simp add: Compile_def Let_def ThrowIfFailed_def)

lemma Compile_macros: "m_macros (fst (snd (Compile pf (s, calls)))) = m_macros s"
  by (simp add: Compile_def Let_def ThrowIfFailed_def refresh_shader_macros_fields)

lemma Compile_macro_flag: "\<not> m_is_macro_changed (fst (snd (Compile pf (s, calls))))"
  by (simp add: Compile_def Let_def ThrowIfFailed_def refresh_shader_macros_fields)

lemma Compile_calls:
  "snd (snd (Compile pf (s, calls))) =
     (if m_is_config_changed s then calls @ [D3DCompile_args_of (refresh_shader_macros s)]
      else calls)"
  by (simp add: Compile_def Let_def ThrowIfFailed_def refresh_shader_macros_fields)

lemma Compile_returns:
  assumes "Compile pf (s, calls) = (Inr b, s', calls')"
  shows "\<not> m_is_config_changed s'" and "\<not> m_is_macro_changed s'"
    and "b = m_p_cached_byte_code s'" and "length calls' \<le> Suc (length calls)"
  using assms
  by (auto simp: Compile_def Let_def ThrowIfFailed_def refresh_shader_macros_fields
      split: if_splits)

text \<open>What the exception of a failed call carries: the message is the fixed text with the
  diagnostic text after it, and the status is the one \<^verbatim>\<open>::GetErrorInfo\<close> returned.\<close>

lemma CDXShaderException_ctor_what:
  "what (CDXShaderException_ctor pf hr p_error p_shader_error) =
     p_error @ (case p_shader_error of None \<Rightarrow> [] | Some txt \<Rightarrow> txt)"
  by (simp add: what_def CDXShaderException_ctor_def CHResultException.defs
      CDXShaderException.defs split: option.splits)

lemma CDXShaderException_ctor_GetHResult:
  "GetHResult (CDXShaderException_ctor pf hr p_error p_shader_error) = fst (GetErrorInfo pf)"
  by (simp add: GetHResult_def CDXShaderException_ctor_def CHResultException_ctor_def
      CHResultException.defs CDXShaderException.defs)

lemma Compile_stub_succeeding_default:
  "Compile (stub_succeeding b) (CShader_default, []) =
     (Inr (Some b),
      CShader_default\<lparr>m_is_macro_changed := False, m_is_config_changed := False,
        m_p_cached_byte_code := Some b\<rparr>,
      [D3DCompile_args_of CShader_default])"
  by (simp add: Compile_def Let_def ThrowIfFailed_def stub_succeeding_def CShader_default_def
      FAILED_def S_OK_def D3DCompile_args_of_def refresh_shader_macros_def)

section \<open>Properties of the mutators\<close>

lemma apply_mutator_config: "m_is_config_changed (apply_mutator pf m s)"
  by (cases m)
    (simp_all add: SetCode_def SetEntryPoint_def SetName_def SetTarget_def AddMacro_def
      DeleteMacro_def SetFlags1_def SetFlags2_def SetInclude_def)

lemma apply_mutator_cache:
  "m_p_cached_byte_code (apply_mutator pf m s) = m_p_cached_byte_code s"
  by (cases m)
    (simp_all add: SetCode_def SetEntryPoint_def SetName_def SetTarget_def AddMacro_def
      DeleteMacro_def SetFlags1_def SetFlags2_def SetInclude_def)

lemma apply_mutators_snoc:
  "apply_mutators pf (ms @ [m]) s = apply_mutator pf m (apply_mutators pf ms s)"
  by (simp add: apply_mutators_def)

lemma apply_mutators_cache:
  "m_p_cached_byte_code (apply_mutators pf ms s) = m_p_cached_byte_code s"
proof (induction ms rule: rev_induct)
  case Nil
  show ?case by (simp add: apply_mutators_def)
next
  case (snoc m ms)
  then show ?case by (simp add: apply_mutators_snoc apply_mutator_cache)
qed

lemma apply_mutators_config:
  "ms \<noteq> [] \<Longrightarrow> m_is_config_changed (apply_mutators pf ms s)"
  by (cases ms rule: rev_cases) (simp_all add: apply_mutators_snoc apply_mutator_config)

lemma run_snoc: "run pf (cs @ [c]) w = step pf c (run pf cs w)"
  by (simp add: run_def)

lemma step_settled:
  assumes ok: "\<And>n args. \<not> FAILED (hresult (D3DCompile pf n args)) \<Longrightarrow>
      ppCode (D3DCompile pf n args) \<noteq> None"
    and w: "settled w"
  shows "settled (step pf c w)"
proof (cases c)
  case (Mutator m)
  then show ?thesis by (simp add: settled_def apply_mutator_config)
next
  case CallGetInclude
  then show ?thesis by (simp add: settled_def GetInclude_def)
next
  case CallCompile
  show ?thesis
  proof (cases "m_is_config_changed (shader w)")
    case False
    with w CallCompile show ?thesis
      by (simp add: settled_def Compile_clean Let_def refresh_shader_macros_fields)
  next
    case True
    show ?thesis
    proof (cases "FAILED (hresult (D3DCompile pf (length (compiler_calls w))
        (D3DCompile_args_of (refresh_shader_macros (shader w)))))")
      case failed: True
      with True w CallCompile show ?thesis
        by (simp add: settled_def Compile_failed Let_def refresh_shader_macros_fields)
    next
      case False
      with True w CallCompile ok [OF False] show ?thesis
        by (simp add: settled_def Compile_succeeded Let_def)
    qed
  qed
qed

lemma run_settled:
  assumes ok: "\<And>n args. \<not> FAILED (hresult (D3DCompile pf n args)) \<Longrightarrow>
      ppCode (D3DCompile pf n args) \<noteq> None"
  shows "settled (run pf cs session_start)"
proof (induction cs rule: rev_induct)
  case Nil
  show ?case by (simp add: run_def settled_def session_start_def CShader_default_def)
next
  case (snoc c cs)
  then show ?case by (simp add: run_snoc step_settled [OF ok])
qed

lemma run_Compile_then_SetCode:
  "run (stub_succeeding 7) [CallCompile, Mutator (CallSetCode ''x'')] session_start =
     \<lparr>shader = CShader_default\<lparr>m_code := ''x'', m_is_macro_changed := False,
         m_is_config_changed := True, m_p_cached_byte_code := Some 7\<rparr>,
      compiler_calls = [D3DCompile_args_of CShader_default],
      compiled_since_change = False\<rparr>"
  by (simp add: run_def session_start_def Let_def SetCode_def CShader_default_def
      Compile_def ThrowIfFailed_def stub_succeeding_def FAILED_def S_OK_def
      D3DCompile_args_of_def refresh_shader_macros_def)

lemma run_SetCode_then_Compile:
  "run (stub_succeeding 7) [Mutator (CallSetCode ''x''), CallCompile] session_start =
     \<lparr>shader = CShader_default\<lparr>m_code := ''x'', m_is_macro_changed := False,
         m_is_config_changed := False, m_p_cached_byte_code := Some 7\<rparr>,
      compiler_calls = [D3DCompile_args_of (CShader_default\<lparr>m_code := ''x''\<rparr>)],
      compiled_since_change = True\<rparr>"
  by (simp add: run_def session_start_def Let_def SetCode_def CShader_default_def
      Compile_def ThrowIfFailed_def stub_succeeding_def FAILED_def S_OK_def
      D3DCompile_args_of_def refresh_shader_macros_def)

section \<open>The claims\<close>

text \<open>
  Claim C1: every mutator call sets \<open>configDirty\<close>, and \<^verbatim>\<open>AddMacro\<close> and \<^verbatim>\<open>DeleteMacro\<close>
  also set \<open>macrosDirty\<close>. The first half holds: every mutator leaves
  \<open>m_is_config_changed\<close> set. The second half does not: \<^verbatim>\<open>AddMacro\<close> and \<^verbatim>\<open>DeleteMacro\<close>
  leave \<open>m_is_macro_changed\<close> as it was, so on a unit that has been compiled once (the
  flag cleared) it is still clear after \<^verbatim>\<open>AddMacro\<close>.
\<close>

theorem macro_mutators_leave_macro_flag:
  "m_is_config_changed (apply_mutator pf m s) \<and>
   m_is_macro_changed (AddMacro macro s) = m_is_macro_changed s \<and>
   m_is_macro_changed (DeleteMacro mv name s) = m_is_macro_changed s \<and>
   \<not> m_is_macro_changed (AddMacro (ShaderMacro ''A'' ''1'')
        (fst (snd (Compile (stub_succeeding 7) (CShader_default, [])))))"
  by (simp add: apply_mutator_config AddMacro_def DeleteMacro_def Compile_macro_flag)

text \<open>
  Claim C2: with \<open>N\<close> macros set, \<^verbatim>\<open>DeleteMacro\<close> of one of the names followed by
  \<^verbatim>\<open>Compile\<close> gives a projected array of \<open>N - 1\<close> real entries and the sentinel. On a
  fresh unit with the two macros \<open>A\<close> and \<open>B\<close>, \<^verbatim>\<open>DeleteMacro\<close> of \<open>A\<close> leaves two
  elements in \<open>m_macros\<close> (\<open>B\<close>, and what the move left behind), and the array that
  \<^verbatim>\<open>Compile\<close> builds has two entries with a name and the sentinel: three entries, not
  two. This holds whatever the standard library leaves in a moved-from element and
  whatever the compiler answers.
\<close>

theorem DeleteMacro_Compile_keeps_every_entry:
  "m_macros (DeleteMacro mv ''A''
      (AddMacro (ShaderMacro ''B'' ''2'') (AddMacro (ShaderMacro ''A'' ''1'') CShader_default))) =
     [ShaderMacro ''B'' ''2'', mv (ShaderMacro ''A'' ''1'') (ShaderMacro ''B'' ''2'')] \<and>
   length (filter (\<lambda>e. Name e \<noteq> None)
     (m_shader_macros (fst (snd (Compile pf
        (DeleteMacro mv ''A''
           (AddMacro (ShaderMacro ''B'' ''2'') (AddMacro (ShaderMacro ''A'' ''1'') CShader_default)),
         calls)))))) = 2 \<and>
   length (m_shader_macros (fst (snd (Compile pf
        (DeleteMacro mv ''A''
           (AddMacro (ShaderMacro ''B'' ''2'') (AddMacro (ShaderMacro ''A'' ''1'') CShader_default)),
         calls))))) = 3"
proof -
  let ?s = "DeleteMacro mv ''A''
      (AddMacro (ShaderMacro ''B'' ''2'') (AddMacro (ShaderMacro ''A'' ''1'') CShader_default))"
  have m: "m_macros ?s =
      [ShaderMacro ''B'' ''2'', mv (ShaderMacro ''A'' ''1'') (ShaderMacro ''B'' ''2'')]"
    by (simp add: DeleteMacro_def AddMacro_def CShader_default_def remove_if_def find_if_def
        remove_if_loop.simps)
  have f: "m_is_macro_changed ?s"
    by (simp add: DeleteMacro_def AddMacro_def CShader_default_def)
  have arr: "m_shader_macros (fst (snd (Compile pf (?s, calls)))) =
      map (\<lambda>current. D3D_SHADER_MACRO (Some (ShaderMacro.m_name current))
             (Some (m_definition current))) (m_macros ?s) @ [D3D_SHADER_MACRO None None]"
    using f m
    by (simp add: Compile_shader_macros refresh_shader_macros_def rebuild_shader_macros_array)
  show ?thesis
    by (simp add: arr m)
qed

text \<open>
  Claim C3: \<^verbatim>\<open>Compile\<close> called twice with no mutation in between makes at most one
  compiler call, and the second call returns the same cached artifact. When a call of
  \<^verbatim>\<open>Compile\<close> has returned \<open>b\<close>, the next call returns \<open>b\<close> again, leaves the object as
  it is and adds nothing to the log of compiler calls; the first call added at most one.
\<close>

theorem Compile_twice_one_compiler_call:
  "Compile pf (s, calls) = (Inr b, s', calls') \<Longrightarrow>
   Compile pf (s', calls') = (Inr b, s', calls') \<and> length calls' \<le> Suc (length calls)"
  using Compile_returns [of pf s calls b s' calls']
  by (simp add: Compile_clean refresh_shader_macros_idle)

theorem Compile_twice_one_compiler_call_witness:
  "Compile (stub_succeeding 7) (CShader_default, []) =
     (Inr (Some 7),
      CShader_default\<lparr>m_is_macro_changed := False, m_is_config_changed := False,
        m_p_cached_byte_code := Some 7\<rparr>,
      [D3DCompile_args_of CShader_default]) \<and>
   Compile (stub_succeeding 7)
     (CShader_default\<lparr>m_is_macro_changed := False, m_is_config_changed := False,
        m_p_cached_byte_code := Some 7\<rparr>,
      [D3DCompile_args_of CShader_default]) =
     (Inr (Some 7),
      CShader_default\<lparr>m_is_macro_changed := False, m_is_config_changed := False,
        m_p_cached_byte_code := Some 7\<rparr>,
      [D3DCompile_args_of CShader_default])"
  using Compile_twice_one_compiler_call [OF Compile_stub_succeeding_default [of 7]]
  by (simp add: Compile_stub_succeeding_default)

text \<open>
  Claim C4: when the compiler call fails, \<^verbatim>\<open>Compile\<close> raises an error that carries the
  status code and the fixed message with the diagnostic text after it, and leaves
  \<open>configDirty\<close> set, so that the next \<^verbatim>\<open>Compile\<close> calls the compiler again. With a
  compiler that fails with \<^verbatim>\<open>E_FAIL\<close> and the text \<open>syntax error\<close>: the exception is
  raised, its message is the fixed text followed by \<open>syntax error\<close>, the flag stays set
  and a second \<^verbatim>\<open>Compile\<close> makes a second compiler call; but the status the exception
  reports is the result of \<^verbatim>\<open>::GetErrorInfo\<close> (\<^verbatim>\<open>S_FALSE\<close>), not \<^verbatim>\<open>E_FAIL\<close>: the
  constructor of \<^verbatim>\<open>CHResultException\<close> never stores its argument \<open>hr\<close>.
\<close>

theorem failed_Compile_exception_drops_status:
  "FAILED E_FAIL \<and> E_FAIL \<noteq> S_FALSE \<and>
   (case fst (Compile (stub_failing E_FAIL ''syntax error'') (CShader_default, [])) of
      Inl ex \<Rightarrow> GetHResult ex = S_FALSE \<and> what ex = ''Compile DX shader failed.syntax error''
    | Inr b \<Rightarrow> False) \<and>
   m_is_config_changed
     (fst (snd (Compile (stub_failing E_FAIL ''syntax error'') (CShader_default, [])))) \<and>
   length (snd (snd (Compile (stub_failing E_FAIL ''syntax error'')
     (snd (Compile (stub_failing E_FAIL ''syntax error'') (CShader_default, [])))))) = 2"
  by (simp add: Compile_def Let_def ThrowIfFailed_def stub_failing_def CShader_default_def
      FAILED_def E_FAIL_def S_FALSE_def GetHResult_def what_def CDXShaderException_ctor_def
      CHResultException_ctor_def CHResultException.defs CDXShaderException.defs
      refresh_shader_macros_def)

text \<open>
  Claim C5: \<open>cachedBytecode\<close> is non-null if and only if a compile has succeeded since the
  most recent change that set \<open>configDirty\<close>. The "only if" fails: a mutator leaves the
  cached artifact in place, so after \<^verbatim>\<open>Compile\<close> and then \<^verbatim>\<open>SetCode\<close> the artifact is
  still there although no compile has succeeded since the change.
\<close>

theorem cached_iff_compiled_since_change_counterexample:
  "\<not> ((m_p_cached_byte_code (shader (run (stub_succeeding 7)
          [CallCompile, Mutator (CallSetCode ''x'')] session_start)) \<noteq> None) =
       compiled_since_change (run (stub_succeeding 7)
          [CallCompile, Mutator (CallSetCode ''x'')] session_start))"
  by (simp add: run_Compile_then_SetCode)

text \<open>
  Claim C5, amended to the direction that holds: after any sequence of calls on a new
  unit, if a compile has succeeded since the most recent call that set \<open>configDirty\<close>,
  then \<open>cachedBytecode\<close> is non-null and \<open>configDirty\<close> is clear, for every compiler that
  stores a blob whenever it reports success.
\<close>

theorem cached_when_compiled_since_change:
  assumes "\<And>n args. \<not> FAILED (hresult (D3DCompile pf n args)) \<Longrightarrow>
      ppCode (D3DCompile pf n args) \<noteq> None"
    and "compiled_since_change (run pf cs session_start)"
  shows "m_p_cached_byte_code (shader (run pf cs session_start)) \<noteq> None \<and>
         \<not> m_is_config_changed (shader (run pf cs session_start))"
  using run_settled [of pf cs, OF assms(1)] assms(2) by (auto simp: settled_def)

theorem cached_when_compiled_since_change_witness:
  "compiled_since_change
     (run (stub_succeeding 7) [Mutator (CallSetCode ''x''), CallCompile] session_start) \<and>
   m_p_cached_byte_code (shader (run (stub_succeeding 7)
      [Mutator (CallSetCode ''x''), CallCompile] session_start)) = Some 7 \<and>
   \<not> m_is_config_changed (shader (run (stub_succeeding 7)
      [Mutator (CallSetCode ''x''), CallCompile] session_start))"
proof -
  have ok: "\<And>n args. \<not> FAILED (hresult (D3DCompile (stub_succeeding 7) n args)) \<Longrightarrow>
      ppCode (D3DCompile (stub_succeeding 7) n args) \<noteq> None"
    by (simp add: stub_succeeding_def)
  have c: "compiled_since_change (run (stub_succeeding 7)
      [Mutator (CallSetCode ''x''), CallCompile] session_start)"
    by (simp add: run_SetCode_then_Compile)
  from cached_when_compiled_since_change [of "stub_succeeding 7", OF ok c] c show ?thesis
    by (simp add: run_SetCode_then_Compile)
qed

text \<open>
  Claim C6: when a call of \<^verbatim>\<open>Compile\<close> rebuilds the projected array (the macro flag is set
  and there are macros), the array has one entry more than \<open>m_macros\<close> afterwards, and
  its last entry is the null pair; this holds whether the compiler call succeeds or not.
\<close>

theorem rebuilt_array_length_and_sentinel:
  "m_is_macro_changed s \<Longrightarrow> m_macros s \<noteq> [] \<Longrightarrow>
   length (m_shader_macros (fst (snd (Compile pf (s, calls))))) =
     length (m_macros (fst (snd (Compile pf (s, calls))))) + 1 \<and>
   last (m_shader_macros (fst (snd (Compile pf (s, calls))))) = D3D_SHADER_MACRO None None"
  by (simp add: Compile_shader_macros Compile_macros refresh_shader_macros_def
      rebuild_shader_macros_array)

theorem rebuilt_array_length_and_sentinel_witness:
  "m_is_macro_changed (AddMacro (ShaderMacro ''A'' ''1'') CShader_default) \<and>
   m_macros (AddMacro (ShaderMacro ''A'' ''1'') CShader_default) \<noteq> [] \<and>
   length (m_shader_macros (fst (snd (Compile (stub_succeeding 7)
      (AddMacro (ShaderMacro ''A'' ''1'') CShader_default, []))))) = 2 \<and>
   last (m_shader_macros (fst (snd (Compile (stub_succeeding 7)
      (AddMacro (ShaderMacro ''A'' ''1'') CShader_default, []))))) = D3D_SHADER_MACRO None None"
proof -
  have a: "m_is_macro_changed (AddMacro (ShaderMacro ''A'' ''1'') CShader_default)"
    by (simp add: AddMacro_def CShader_default_def)
  have b: "m_macros (AddMacro (ShaderMacro ''A'' ''1'') CShader_default) \<noteq> []"
    by (simp add: AddMacro_def)
  have c: "length (m_macros (AddMacro (ShaderMacro ''A'' ''1'') CShader_default)) = 1"
    by (simp add: AddMacro_def CShader_default_def)
  from rebuilt_array_length_and_sentinel [OF a b, of "stub_succeeding 7" "[]"] a b c
  show ?thesis
    by (simp add: Compile_macros)
qed

text \<open>
  Claim C7: during a sequence of mutator calls with no \<^verbatim>\<open>Compile\<close> in between,
  \<open>configDirty\<close> is true after every call, and the cached artifact is the one the unit
  held before the sequence: no mutator replaces or releases it. The state after the
  first \<open>k\<close> calls is \<open>apply_mutators pf (take k ms) s\<close>.
\<close>

theorem mutators_keep_dirty_and_cache:
  "ms \<noteq> [] \<Longrightarrow> 0 < k \<Longrightarrow>
   m_is_config_changed (apply_mutators pf (take k ms) s) \<and>
   m_p_cached_byte_code (apply_mutators pf (take k ms) s) = m_p_cached_byte_code s"
  by (simp add: apply_mutators_cache apply_mutators_config)

theorem mutators_keep_dirty_and_cache_witness:
  "[CallSetCode ''x'', CallAddMacro (ShaderMacro ''A'' ''1''), CallDeleteMacro ''A''] \<noteq> [] \<and>
   (0::nat) < 2 \<and>
   m_is_config_changed (apply_mutators (stub_succeeding 7)
     [CallSetCode ''x'', CallAddMacro (ShaderMacro ''A'' ''1'')]
     (fst (snd (Compile (stub_succeeding 7) (CShader_default, []))))) \<and>
   m_p_cached_byte_code (apply_mutators (stub_succeeding 7)
     [CallSetCode ''x'', CallAddMacro (ShaderMacro ''A'' ''1'')]
     (fst (snd (Compile (stub_succeeding 7) (CShader_default, []))))) = Some 7"
  using mutators_keep_dirty_and_cache
    [of "[CallSetCode ''x'', CallAddMacro (ShaderMacro ''A'' ''1''), CallDeleteMacro ''A'']"
      2 "stub_succeeding 7" "fst (snd (Compile (stub_succeeding 7) (CShader_default, [])))"]
  by (simp add: Compile_stub_succeeding_default)

text \<open>
  Claim C8: after any call of \<^verbatim>\<open>Compile\<close>, returning or raising, \<open>macrosDirty\<close> is false;
  with an empty macro list no array is rebuilt, and the compiler (when it is called,
  that is when \<open>configDirty\<close> was set) receives a null macro pointer.
\<close>

theorem Compile_clears_macro_flag:
  "\<not> m_is_macro_changed (fst (snd (Compile pf (s, calls)))) \<and>
   (m_macros s = [] \<longrightarrow>
      m_shader_macros (fst (snd (Compile pf (s, calls)))) = m_shader_macros s \<and>
      map pDefines (snd (snd (Compile pf (s, calls)))) =
        map pDefines calls @ (if m_is_config_changed s then [None] else []))"
  by (simp add: Compile_macro_flag Compile_shader_macros Compile_calls D3DCompile_args_of_def
      refresh_shader_macros_def)

theorem Compile_clears_macro_flag_witness:
  "m_macros CShader_default = [] \<and>
   \<not> m_is_macro_changed
     (fst (snd (Compile (stub_failing E_FAIL ''syntax error'') (CShader_default, [])))) \<and>
   m_shader_macros
     (fst (snd (Compile (stub_failing E_FAIL ''syntax error'') (CShader_default, [])))) = [] \<and>
   map pDefines
     (snd (snd (Compile (stub_failing E_FAIL ''syntax error'') (CShader_default, [])))) = [None]"
  using Compile_clears_macro_flag [of "stub_failing E_FAIL ''syntax error''" CShader_default "[]"]
  by (simp add: CShader_default_def)

text \<open>
  Claim C9: \<^verbatim>\<open>DeleteMacro\<close> leaves the length of the macro sequence unchanged: it moves
  the macros with another name to the front, in their order, and erases nothing.
\<close>

theorem DeleteMacro_keeps_length:
  "length (m_macros (DeleteMacro mv name s)) = length (m_macros s) \<and>
   take (length (filter (\<lambda>x. ShaderMacro.m_name x \<noteq> name) (m_macros s)))
     (m_macros (DeleteMacro mv name s)) =
     filter (\<lambda>x. ShaderMacro.m_name x \<noteq> name) (m_macros s)"
  by (simp add: DeleteMacro_def remove_if_kept length_remove_if)

text \<open>
  Claim C10: \<^verbatim>\<open>GetInclude\<close> returns the include pointer and sets \<open>configDirty\<close>, changing
  no other field; so on a unit whose \<open>configDirty\<close> is clear, where \<^verbatim>\<open>Compile\<close> would
  make no compiler call, \<^verbatim>\<open>Compile\<close> after \<^verbatim>\<open>GetInclude\<close> makes one.
\<close>

theorem GetInclude_marks_config_changed:
  "\<not> m_is_config_changed s \<Longrightarrow>
   fst (GetInclude s) = m_p_include s \<and>
   snd (GetInclude s) = s\<lparr>m_is_config_changed := True\<rparr> \<and>
   snd (snd (Compile pf (s, calls))) = calls \<and>
   length (snd (snd (Compile pf (snd (GetInclude s), calls)))) = Suc (length calls)"
  by (simp add: GetInclude_def Compile_calls)

theorem GetInclude_marks_config_changed_witness:
  "\<not> m_is_config_changed (fst (snd (Compile (stub_succeeding 7) (CShader_default, [])))) \<and>
   snd (snd (Compile (stub_succeeding 7)
     (fst (snd (Compile (stub_succeeding 7) (CShader_default, []))),
      [D3DCompile_args_of CShader_default]))) = [D3DCompile_args_of CShader_default] \<and>
   length (snd (snd (Compile (stub_succeeding 7)
     (snd (GetInclude (fst (snd (Compile (stub_succeeding 7) (CShader_default, []))))),
      [D3DCompile_args_of CShader_default])))) = 2"
proof -
  have a: "\<not> m_is_config_changed (fst (snd (Compile (stub_succeeding 7) (CShader_default, []))))"
    by (simp add: Compile_stub_succeeding_default)
  from GetInclude_marks_config_changed
    [OF a, of "stub_succeeding 7" "[D3DCompile_args_of CShader_default]"] a
  show ?thesis by (simp add: GetInclude_def)
qed

end
